theory Spec2Isabelle
  imports Main "HOL-Library.AList" "HOL-Library.Multiset"
begin

section \<open>The Go library functions the program calls\<close>

text \<open>
  Go strings are byte sequences, modelled as \<open>string\<close>. The three library
  functions below are the ones whose results the checkpoint code depends on:
  \<open>strings.Split\<close> with a one-byte separator, \<open>strconv.Atoi\<close> and
  \<open>fmt.Sprintf\<close> with the verbs \<open>%s\<close> and \<open>%d\<close>.
\<close>

subsection \<open>strings.Split\<close>

text \<open>\<open>strings.Split(s, sep)\<close> for a separator of one byte: the pieces between the
  separators, one piece (the whole string, possibly empty) when there is none.\<close>

fun splitOn :: "char \<Rightarrow> string \<Rightarrow> string list" where
  "splitOn c [] = [[]]"
| "splitOn c (x # xs) =
     (if x = c then [] # splitOn c xs
      else (case splitOn c xs of [] \<Rightarrow> [[x]] | w # ws \<Rightarrow> (x # w) # ws))"

subsection \<open>strconv.Atoi and the decimal form of an int\<close>

datatype numError = ErrSyntax | ErrRange

definition isDigit :: "char \<Rightarrow> bool" where
  "isDigit c = (48 \<le> (of_char c :: nat) \<and> (of_char c :: nat) \<le> 57)"

definition digitVal :: "char \<Rightarrow> int" where
  "digitVal c = of_char c - 48"

definition maxUint64 :: int where
  "maxUint64 = 2 ^ 64 - 1"

text \<open>\<open>strconv.ParseUint(s, 10, 64)\<close> after its empty-string test: the digits are
  read left to right; a byte that is no digit is a syntax error, a value past
  \<open>2^64 - 1\<close> a range error, whichever the scan meets first.\<close>

fun parseUint :: "int \<Rightarrow> string \<Rightarrow> numError + int" where
  "parseUint n [] = Inr n"
| "parseUint n (c # cs) =
     (if \<not> isDigit c then Inl ErrSyntax
      else if n \<ge> maxUint64 div 10 + 1 then Inl ErrRange
      else if n * 10 + digitVal c > maxUint64 then Inl ErrRange
      else parseUint (n * 10 + digitVal c) cs)"

text \<open>\<open>strconv.Atoi(s)\<close> on a 64-bit platform, as \<open>ParseInt(s, 10, 0)\<close>: an optional
  sign, then at least one digit. Go returns a value together with the error:
  0 with a syntax error, the nearest bound of int64 with a range error. The
  callers in \<open>main\<close> go on with that value, so the model returns both.\<close>

definition atoi :: "string \<Rightarrow> int \<times> numError option" where
  "atoi s =
     (if s = [] then (0, Some ErrSyntax)
      else
        let neg = (hd s = CHR ''-'');
            ds = (if hd s = CHR ''+'' \<or> hd s = CHR ''-'' then tl s else s)
        in if ds = [] then (0, Some ErrSyntax)
           else (case parseUint 0 ds of
                   Inl ErrSyntax \<Rightarrow> (0, Some ErrSyntax)
                 | Inl ErrRange \<Rightarrow>
                     (if neg then (- (2 ^ 63), Some ErrRange) else (2 ^ 63 - 1, Some ErrRange))
                 | Inr un \<Rightarrow>
                     (if \<not> neg \<and> un \<ge> 2 ^ 63 then (2 ^ 63 - 1, Some ErrRange)
                      else if neg \<and> un > 2 ^ 63 then (- (2 ^ 63), Some ErrRange)
                      else (if neg then - un else un, None))))"

definition digitChar :: "nat \<Rightarrow> char" where
  "digitChar d = ''0123456789'' ! d"

fun natDigits :: "nat \<Rightarrow> string" where
  "natDigits n = (if n < 10 then [digitChar n] else natDigits (n div 10) @ [digitChar (n mod 10)])"

declare natDigits.simps [simp del]

text \<open>The text \<open>%d\<close> gives an int.\<close>

definition formatInt :: "int \<Rightarrow> string" where
  "formatInt i = (if i < 0 then CHR ''-'' # natDigits (nat (- i)) else natDigits (nat i))"

subsection \<open>fmt.Sprintf\<close>

datatype fmtArg = S string | D int

text \<open>One operand under one verb: \<open>%s\<close> and \<open>%v\<close> of a string, \<open>%d\<close> and \<open>%v\<close>
  of an int; a verb that does not fit its operand prints Go's bad-verb form
  \<open>%!verb(type=value)\<close>.\<close>

fun fmtVerb :: "char \<Rightarrow> fmtArg \<Rightarrow> string" where
  "fmtVerb v (S s) =
     (if v = CHR ''s'' \<or> v = CHR ''v'' then s
      else ''%!'' @ [v] @ ''(string='' @ s @ '')'')"
| "fmtVerb v (D i) =
     (if v = CHR ''d'' \<or> v = CHR ''v'' then formatInt i
      else ''%!'' @ [v] @ ''(int='' @ formatInt i @ '')'')"

fun fmtExtraArg :: "fmtArg \<Rightarrow> string" where
  "fmtExtraArg (S s) = ''string='' @ s"
| "fmtExtraArg (D i) = ''int='' @ formatInt i"

fun joinComma :: "string list \<Rightarrow> string" where
  "joinComma [] = []"
| "joinComma [x] = x"
| "joinComma (x # y # ys) = x @ '', '' @ joinComma (y # ys)"

text \<open>Operands left over once the format is used up are listed as
  \<open>%!(EXTRA type=value, ...)\<close>.\<close>

definition fmtExtra :: "fmtArg list \<Rightarrow> string" where
  "fmtExtra args = (if args = [] then [] else ''%!(EXTRA '' @ joinComma (map fmtExtraArg args) @ '')'')"

text \<open>\<open>fmt.Sprintf(format, args...)\<close> for formats whose verbs carry no flag, width or
  precision (every format of this program). A verb with no operand left prints
  \<open>%!verb(MISSING)\<close>; a lone \<open>%\<close> at the end prints \<open>%!(NOVERB)\<close>.\<close>

fun sprintf :: "string \<Rightarrow> fmtArg list \<Rightarrow> string" where
  "sprintf [] args = fmtExtra args"
| "sprintf [c] args = (if c = CHR ''%'' then ''%!(NOVERB)'' else [c]) @ fmtExtra args"
| "sprintf (c # v # fs) args =
     (if c = CHR ''%'' then
        (if v = CHR ''%'' then CHR ''%'' # sprintf fs args
         else (case args of
                 [] \<Rightarrow> ''%!'' @ [v] @ ''(MISSING)'' @ sprintf fs []
               | a # as \<Rightarrow> fmtVerb v a @ sprintf fs as))
      else c # sprintf (v # fs) args)"

section \<open>main.go: constants and data\<close>

definition discourseDone :: int where "discourseDone = 1"
definition commentDone :: int where "commentDone = 2"
definition closeDone :: int where "closeDone = 3"
definition lockDone :: int where "lockDone = 4"
definition maxCount :: int where "maxCount = 1"

definition activeTpl :: string where
  "activeTpl = ''Hi %s! We are migrating our GitHub issues to Discourse (https://discuss.bitrise.io/c/issues/build-issues). From now on, you can track this issue at: %s''"

definition staleTpl :: string where
  "staleTpl = ''Hi %s! We are migrating our GitHub issues to Discourse (https://discuss.bitrise.io/c/issues/build-issues). Because this issue has been inactive for more than three months, we will be closing it. If you feel it is still relevant, please open a ticket on Discourse!''"

record RestoredIssue =
  URL :: string
  Owner :: string
  Repo :: string
  IssNum :: int
  Done :: int
  Extra :: string

record RunStats =
  Processed :: int
  Stale :: int
  Active :: int
  PullRequest :: int

text \<open>The fields of \<open>github.Issue\<close> the program reads. \<open>UpdatedAt\<close> is an instant on
  an integer time line; \<open>PullRequestLinks\<close> is whether the pointer of that name is
  set, which is what \<open>IsPullRequest()\<close> returns.\<close>

record Issue =
  HTMLURL :: string
  Number :: int
  UserLogin :: string
  UpdatedAt :: int
  Title :: string
  Body :: string
  PullRequestLinks :: bool
  RepoOwnerLogin :: string
  State :: string

section \<open>main.go: the checkpoint line and its parser\<close>

text \<open>The line \<open>saveState\<close> formats (main.go, line 71).\<close>

definition checkpointLine :: "string \<Rightarrow> int \<Rightarrow> string \<Rightarrow> string" where
  "checkpointLine url state extra = sprintf ''%s %d %s\<newline>'' [S url, D state, S extra]"

datatype panic = IndexOutOfRange | NilDereference

text \<open>Indexing a slice panics out of range; \<open>orPanic\<close> passes a panic on.\<close>

definition index :: "'a list \<Rightarrow> nat \<Rightarrow> panic + 'a" where
  "index xs n = (if n < length xs then Inr (xs ! n) else Inl IndexOutOfRange)"

text \<open>The error lines the program prints: \<open>could not read stored state: ...\<close> of the
  resume pass, with the text \<open>Atoi\<close> was given and the kind of its error, and the
  lines of \<open>printIssueLog\<close>.\<close>

datatype report = CouldNotReadStoredState string numError | IssueLog string

definition atoiReport :: "string \<Rightarrow> numError option \<Rightarrow> report list" where
  "atoiReport s e = (case e of None \<Rightarrow> [] | Some k \<Rightarrow> [CouldNotReadStoredState s k])"

text \<open>One non-empty line of the log (main.go, lines 337-367). A failed \<open>Atoi\<close> is
  printed and the loop body goes on with the value \<open>Atoi\<close> returned; an index out
  of range panics.\<close>

definition orPanic :: "panic + 'a \<Rightarrow> ('a \<Rightarrow> panic + 'b) \<Rightarrow> panic + 'b" where
  "orPanic r k = (case r of Inl p \<Rightarrow> Inl p | Inr x \<Rightarrow> k x)"

definition parseLine :: "string \<Rightarrow> panic + (RestoredIssue \<times> report list)" where
  "parseLine l =
     (let fields = splitOn CHR '' '' l in
      orPanic (index fields 0) (\<lambda>url.
        (let fragments = splitOn CHR ''/'' url in
         orPanic (index fragments 3) (\<lambda>owner.
         orPanic (index fragments 4) (\<lambda>repo.
         orPanic (index fragments 6) (\<lambda>numText.
           (let (num, numErr) = atoi numText in
            orPanic (index fields 1) (\<lambda>doneText.
              (let (done, doneErr) = atoi doneText in
               orPanic (if done = discourseDone then index fields 2 else Inr []) (\<lambda>extra.
                 Inr (\<lparr>URL = url, Owner = owner, Repo = repo, IssNum = num,
                        Done = done, Extra = extra\<rparr>,
                      atoiReport numText numErr @ atoiReport doneText doneErr)))))))))))"

text \<open>The map \<open>issueStates\<close> is kept as an association list with one entry per key;
  the order \<open>range\<close> visits it in is chosen elsewhere. Update or insert
  (main.go, lines 369-376): a known URL only ever has its \<open>Done\<close> raised.\<close>

definition populate :: "(string \<times> RestoredIssue) list \<Rightarrow> RestoredIssue \<Rightarrow> (string \<times> RestoredIssue) list" where
  "populate issueStates iss =
     (case map_of issueStates (URL iss) of
        Some i \<Rightarrow>
          (if Done iss > Done i then AList.update (URL iss) (i\<lparr>Done := Done iss\<rparr>) issueStates
           else issueStates)
      | None \<Rightarrow> AList.update (URL iss) iss issueStates)"

text \<open>The loop over the lines of the log (main.go, lines 332-378): empty lines are
  passed over, a panic ends the program.\<close>

fun loadStates :: "(string \<times> RestoredIssue) list \<Rightarrow> report list \<Rightarrow> string list
    \<Rightarrow> panic + ((string \<times> RestoredIssue) list \<times> report list)" where
  "loadStates issueStates reps [] = Inr (issueStates, reps)"
| "loadStates issueStates reps (l # ls) =
     (if length l = 0 then loadStates issueStates reps ls
      else (case parseLine l of
              Inl p \<Rightarrow> Inl p
            | Inr (iss, rs) \<Rightarrow> loadStates (populate issueStates iss) (reps @ rs) ls))"

definition readLog :: "string \<Rightarrow> panic + ((string \<times> RestoredIssue) list \<times> report list)" where
  "readLog content = loadStates [] [] (splitOn CHR ''\<newline>'' content)"

definition restoredStep :: "(string \<times> RestoredIssue) list \<Rightarrow> string \<Rightarrow> int option" where
  "restoredStep issueStates u = map_option Done (map_of issueStates u)"

section \<open>The outside world: collaborators, the clock and the checkpoint file\<close>

text \<open>The flags \<open>os.OpenFile\<close> is given, and the handle it returns. The file
  position of the one open handle is kept in the world state.\<close>

datatype openFlag = O_APPEND | O_WRONLY | O_RDWR | O_CREATE | O_TRUNC

record File =
  flags :: "openFlag list"

text \<open>What the program does to the world, in order: the calls to its collaborators, the
  pauses, the writes to the checkpoint file and the error lines it prints. Progress
  lines and banners are not recorded.\<close>

datatype event =
    Sleep int
  | DiscourseCall Issue string
  | DiscoursePost Issue string string int
  | Comment Issue string
  | Close Issue
  | Lock Issue
  | GetIssue string string int
  | ListByRepo string string
  | FileOpen string "openFlag list"
  | FileWrite string
  | FileSync
  | FileClose
  | Print report

record world =
  trace :: "event list"
  disk :: "string option"
  pos :: nat

text \<open>The answers of the outside world. Each answer may depend on everything that
  happened before (the trace so far). \<open>now3\<close> is the value of
  \<open>time.Now().AddDate(0, -3, 0)\<close>. An error is its message. \<open>rangeOrder\<close> is the order
  in which \<open>range\<close> visits a map. \<open>listReposRes\<close> is the answer of
  \<open>client.Repositories.List\<close> (owner and name of each repository);
  \<open>specReposRes\<close> is what lines 216-271 of main.go derive from the fetched spec
  file: an exit code or the repositories. \<open>runID\<close>, \<open>discourseCategoryID\<close>,
  \<open>chkptLog\<close> and \<open>chkptLine\<close> stand for the flag, the two constants and the line
  format that the run-mode file uses and the sources do not define.\<close>

record env =
  now3 :: "event list \<Rightarrow> int"
  discourseRes :: "event list \<Rightarrow> Issue \<Rightarrow> string \<Rightarrow> string + string"
  discoursePostRes :: "event list \<Rightarrow> Issue \<Rightarrow> string \<Rightarrow> string \<Rightarrow> int \<Rightarrow> string + string"
  commentRes :: "event list \<Rightarrow> Issue \<Rightarrow> string \<Rightarrow> string option"
  closeRes :: "event list \<Rightarrow> Issue \<Rightarrow> string option"
  lockRes :: "event list \<Rightarrow> Issue \<Rightarrow> string option"
  getIssueRes :: "event list \<Rightarrow> string \<Rightarrow> string \<Rightarrow> int \<Rightarrow> string + (Issue \<times> int)"
  listByRepoRes :: "event list \<Rightarrow> string \<Rightarrow> string \<Rightarrow> Issue list"
  openErr :: "event list \<Rightarrow> string option"
  readErr :: "event list \<Rightarrow> string option"
  writeErr :: "event list \<Rightarrow> string \<Rightarrow> string option"
  syncErr :: "event list \<Rightarrow> string option"
  rangeOrder :: "RestoredIssue list \<Rightarrow> RestoredIssue list"
  listReposRes :: "string + (string \<times> string) list"
  specReposRes :: "int + (string \<times> string) list"
  runID :: string
  discourseCategoryID :: int
  chkptLog :: string
  chkptLine :: "RestoredIssue \<Rightarrow> string"

definition emit :: "world \<Rightarrow> event \<Rightarrow> world" where
  "emit w e = w\<lparr>trace := trace w @ [e]\<rparr>"

subsection \<open>The file\<close>

text \<open>\<open>os.OpenFile(name, flags, 0644)\<close> of the checkpoint log, whose bytes are
  \<open>disk\<close>: a missing file is created under \<open>O_CREATE\<close> and is an error without it;
  \<open>O_TRUNC\<close> empties the file; the position starts at 0.\<close>

definition openFile :: "env \<Rightarrow> world \<Rightarrow> string \<Rightarrow> openFlag list \<Rightarrow> (string + File) \<times> world" where
  "openFile e w name fl =
     (let w1 = emit w (FileOpen name fl) in
      case openErr e (trace w) of
        Some err \<Rightarrow> (Inl err, w1)
      | None \<Rightarrow>
          (case disk w of
             None \<Rightarrow>
               (if O_CREATE \<in> set fl then (Inr \<lparr>flags = fl\<rparr>, w1\<lparr>disk := Some [], pos := 0\<rparr>)
                else (Inl ''no such file or directory'', w1))
           | Some c \<Rightarrow>
               (Inr \<lparr>flags = fl\<rparr>, w1\<lparr>disk := Some (if O_TRUNC \<in> set fl then [] else c), pos := 0\<rparr>)))"

text \<open>The bytes of the file after \<open>write(2)\<close> of \<open>s\<close>: at the end of the file under
  \<open>O_APPEND\<close>, otherwise at the position of the handle, over what is there.\<close>

definition written :: "File \<Rightarrow> nat \<Rightarrow> string \<Rightarrow> string \<Rightarrow> string" where
  "written f p c s =
     (if O_APPEND \<in> set (flags f) then c @ s
      else take p c @ replicate (p - length c) (CHR 0x00) @ s @ drop (p + length s) c)"

text \<open>\<open>f.WriteString(s)\<close>. A nil handle is the error \<open>invalid argument\<close>; a write the
  system refuses leaves the file as it was.\<close>

definition fileWriteString :: "env \<Rightarrow> world \<Rightarrow> File option \<Rightarrow> string \<Rightarrow> string option \<times> world" where
  "fileWriteString e w fo s =
     (case fo of
        None \<Rightarrow> (Some ''invalid argument'', w)
      | Some f \<Rightarrow>
          (let w1 = emit w (FileWrite s) in
           case writeErr e (trace w) s of
             Some err \<Rightarrow> (Some err, w1)
           | None \<Rightarrow>
               (case disk w of
                  None \<Rightarrow> (None, w1\<lparr>disk := Some s, pos := length s\<rparr>)
                | Some c \<Rightarrow>
                    (None, w1\<lparr>disk := Some (written f (pos w) c s),
                               pos := (if O_APPEND \<in> set (flags f) then length c + length s
                                       else pos w + length s)\<rparr>))))"

definition fileSync :: "env \<Rightarrow> world \<Rightarrow> File option \<Rightarrow> string option \<times> world" where
  "fileSync e w fo =
     (case fo of
        None \<Rightarrow> (Some ''invalid argument'', w)
      | Some f \<Rightarrow> (syncErr e (trace w), emit w FileSync))"

subsection \<open>The collaborators\<close>

definition discourse :: "env \<Rightarrow> world \<Rightarrow> Issue \<Rightarrow> string \<Rightarrow> (string + string) \<times> world" where
  "discourse e w i mode = (discourseRes e (trace w) i mode, emit w (DiscourseCall i mode))"

definition discoursePost :: "env \<Rightarrow> world \<Rightarrow> Issue \<Rightarrow> string \<Rightarrow> string \<Rightarrow> int \<Rightarrow> (string + string) \<times> world" where
  "discoursePost e w i title body cat =
     (discoursePostRes e (trace w) i title body cat, emit w (DiscoursePost i title body cat))"

definition comment :: "env \<Rightarrow> world \<Rightarrow> Issue \<Rightarrow> string \<Rightarrow> string option \<times> world" where
  "comment e w i body = (commentRes e (trace w) i body, emit w (Comment i body))"

definition closeIssue :: "env \<Rightarrow> world \<Rightarrow> Issue \<Rightarrow> string option \<times> world" where
  "closeIssue e w i = (closeRes e (trace w) i, emit w (Close i))"

definition lock :: "env \<Rightarrow> world \<Rightarrow> Issue \<Rightarrow> string option \<times> world" where
  "lock e w i = (lockRes e (trace w) i, emit w (Lock i))"

definition getIssue :: "env \<Rightarrow> world \<Rightarrow> string \<Rightarrow> string \<Rightarrow> int \<Rightarrow> (string + (Issue \<times> int)) \<times> world" where
  "getIssue e w owner repo num = (getIssueRes e (trace w) owner repo num, emit w (GetIssue owner repo num))"

definition printIssueLog :: "world \<Rightarrow> string \<Rightarrow> world" where
  "printIssueLog w msg = emit w (Print (IssueLog msg))"

text \<open>\<open>time.Millisecond\<close> in nanoseconds, the unit of \<open>time.Duration\<close>.\<close>

definition Millisecond :: int where
  "Millisecond = 1000000"

text \<open>The argument of every \<open>time.Sleep\<close> of the program, under the comment
  \<open>avoid throttling\<close>.\<close>

definition throttleDelay :: int where
  "throttleDelay = Millisecond + 1000"

definition sleep :: "world \<Rightarrow> int \<Rightarrow> world" where
  "sleep w d = emit w (Sleep d)"

section \<open>main.go: saveState, isStale, process\<close>

definition IsPullRequest :: "Issue \<Rightarrow> bool" where
  "IsPullRequest i = PullRequestLinks i"

text \<open>\<open>isStale\<close> (main.go, lines 87-90).\<close>

definition isStale :: "env \<Rightarrow> world \<Rightarrow> Issue \<Rightarrow> bool" where
  "isStale e w i = (let threeMonthsAgo = now3 e (trace w) in UpdatedAt i < threeMonthsAgo)"

text \<open>\<open>saveState\<close> (main.go, lines 70-85). The message \<open>logmsg\<close> is only printed.\<close>

definition saveState :: "env \<Rightarrow> world \<Rightarrow> File option \<Rightarrow> Issue \<Rightarrow> int \<Rightarrow> string \<Rightarrow> string option \<times> world" where
  "saveState e w f i state extra =
     (let line = checkpointLine (HTMLURL i) state extra in
      case fileWriteString e w f line of
        (Some err, w1) \<Rightarrow> (Some (sprintf ''save state: %s'' [S err]), w1)
      | (None, w1) \<Rightarrow>
          (case fileSync e w1 f of
             (Some err, w2) \<Rightarrow> (Some (sprintf ''save state: sync file: %s'' [S err]), w2)
           | (None, w2) \<Rightarrow> (None, w2)))"

text \<open>How one pass of the loop body of \<open>process\<close> ends: \<open>continue\<close> or the end of the
  body, \<open>break\<close>, or \<open>return nil, err\<close>.\<close>

datatype control = Next | Break | Return string

text \<open>The part of the loop body after the comment (main.go, lines 155-180).\<close>

definition processRest :: "env \<Rightarrow> File option \<Rightarrow> RunStats \<Rightarrow> world \<Rightarrow> Issue \<Rightarrow> control \<times> RunStats \<times> world" where
  "processRest e f st w i =
     (case saveState e w f i commentDone [] of
        (Some err, w1) \<Rightarrow> (Return (sprintf ''process: %s'' [S err]), st, w1)
      | (None, w1) \<Rightarrow>
     (case closeIssue e w1 i of
        (Some err, w2) \<Rightarrow> (Next, st, printIssueLog w2 err)
      | (None, w2) \<Rightarrow>
     (case saveState e w2 f i closeDone [] of
        (Some err, w3) \<Rightarrow> (Return (sprintf ''process: %s'' [S err]), st, w3)
      | (None, w3) \<Rightarrow>
     (case lock e w3 i of
        (Some err, w4) \<Rightarrow> (Next, st, printIssueLog w4 err)
      | (None, w4) \<Rightarrow>
     (case saveState e w4 f i lockDone [] of
        (Some err, w5) \<Rightarrow> (Return (sprintf ''process: %s'' [S err]), st, w5)
      | (None, w5) \<Rightarrow> (Next, st\<lparr>Processed := Processed st + 1\<rparr>, w5))))))"

text \<open>The loop body of \<open>process\<close> (main.go, lines 95-180).\<close>

definition processBody :: "env \<Rightarrow> File option \<Rightarrow> string \<Rightarrow> RunStats \<Rightarrow> world \<Rightarrow> Issue \<Rightarrow> control \<times> RunStats \<times> world" where
  "processBody e f mode st w0 i =
     (let w = sleep w0 throttleDelay in
      if IsPullRequest i then (Next, st\<lparr>PullRequest := PullRequest st + 1\<rparr>, w)
      else if Processed st = maxCount then (Break, st, w)
      else if \<not> isStale e w i then
        (let st1 = st\<lparr>Active := Active st + 1\<rparr> in
         case discourse e w i mode of
           (Inl err, w1) \<Rightarrow> (Next, st1, printIssueLog w1 err)
         | (Inr url, w1) \<Rightarrow>
        (case saveState e w1 f i discourseDone url of
           (Some err, w2) \<Rightarrow> (Return (sprintf ''process: %s'' [S err]), st1, w2)
         | (None, w2) \<Rightarrow>
        (case comment e w2 i (sprintf activeTpl [S url]) of
           (Some err, w3) \<Rightarrow> (Next, st1, printIssueLog w3 err)
         | (None, w3) \<Rightarrow> processRest e f st1 w3 i)))
      else
        (let st1 = st\<lparr>Stale := Stale st + 1\<rparr> in
         case comment e w i (sprintf staleTpl []) of
           (Some err, w1) \<Rightarrow> (Next, st1, printIssueLog w1 err)
         | (None, w1) \<Rightarrow> processRest e f st1 w1 i))"

fun processLoop :: "env \<Rightarrow> File option \<Rightarrow> string \<Rightarrow> RunStats \<Rightarrow> world \<Rightarrow> Issue list
    \<Rightarrow> (string + RunStats) \<times> world" where
  "processLoop e f mode st w [] = (Inr st, w)"
| "processLoop e f mode st w (i # rest) =
     (case processBody e f mode st w i of
        (Next, st1, w1) \<Rightarrow> processLoop e f mode st1 w1 rest
      | (Break, st1, w1) \<Rightarrow> (Inr st1, w1)
      | (Return err, st1, w1) \<Rightarrow> (Inl err, w1))"

text \<open>\<open>process\<close> (main.go, lines 92-184): \<open>Inl\<close> is \<open>return nil, err\<close>, \<open>Inr\<close> is
  \<open>return stats, nil\<close>.\<close>

definition process :: "env \<Rightarrow> world \<Rightarrow> Issue list \<Rightarrow> File option \<Rightarrow> string \<Rightarrow> (string + RunStats) \<times> world" where
  "process e w issues f mode =
     processLoop e f mode \<lparr>Processed = 0, Stale = 0, Active = 0, PullRequest = 0\<rparr> w issues"

section \<open>The run modes\<close>

text \<open>The run-mode file numbers the steps with \<open>iota\<close>, from 0; the constants carry a
  prime here to tell them from those of main.go.\<close>

definition discourseDone' :: int where "discourseDone' = 0"
definition commentDone' :: int where "commentDone' = 1"
definition closeDone' :: int where "closeDone' = 2"
definition lockDone' :: int where "lockDone' = 3"

text \<open>\<open>dryRun\<close> and \<open>liveRun\<close>; the HTTP client \<open>tc\<close> of \<open>liveRun\<close> is left out.\<close>

record dryRun =
  stats :: RunStats

record liveRun = dryRun +
  chkptf :: "File option"

text \<open>Every method has a value receiver: it works on a copy of \<open>run\<close>. The model of a
  method returns the copy as it stands when the method returns, and the caller,
  as in Go, does not get it back.\<close>

definition dryRun_process :: "env \<Rightarrow> dryRun \<Rightarrow> world \<Rightarrow> Issue \<Rightarrow> dryRun" where
  "dryRun_process e run w i =
     (if IsPullRequest i then
        run\<lparr>stats := (stats run)\<lparr>PullRequest := PullRequest (stats run) + 1\<rparr>\<rparr>
      else
        (let run1 = (if \<not> isStale e w i
                     then run\<lparr>stats := (stats run)\<lparr>Active := Active (stats run) + 1\<rparr>\<rparr>
                     else run\<lparr>stats := (stats run)\<lparr>Stale := Stale (stats run) + 1\<rparr>\<rparr>)
         in run1\<lparr>stats := (stats run1)\<lparr>Processed := Processed (stats run1) + 1\<rparr>\<rparr>))"

text \<open>\<open>dryRun.run\<close> (lines 73-82): \<open>run.process(i)\<close> is a call on a copy.\<close>

fun dryRun_run :: "env \<Rightarrow> dryRun \<Rightarrow> world \<Rightarrow> Issue list \<Rightarrow> (RunStats \<times> string option) \<times> world" where
  "dryRun_run e run w [] = ((stats run, None), w)"
| "dryRun_run e run w (i # rest) =
     (let copy = dryRun_process e run w i
      in dryRun_run e run (sleep w throttleDelay) rest)"

text \<open>Modelled from the spec: the two-argument \<open>saveState(file, checkpoint)\<close> that
  \<open>liveRun.process\<close> calls is not in the sources. The spec has each checkpoint
  written as one line and synced to disk before the next step; the text of the
  line is the parameter \<open>chkptLine\<close>.\<close>

definition saveState' :: "env \<Rightarrow> world \<Rightarrow> File option \<Rightarrow> RestoredIssue \<Rightarrow> string option \<times> world" where
  "saveState' e w f checkpoint =
     (case fileWriteString e w f (chkptLine e checkpoint) of
        (Some err, w1) \<Rightarrow> (Some (sprintf ''save state: %s'' [S err]), w1)
      | (None, w1) \<Rightarrow>
          (case fileSync e w1 f of
             (Some err, w2) \<Rightarrow> (Some (sprintf ''save state: sync file: %s'' [S err]), w2)
           | (None, w2) \<Rightarrow> (None, w2)))"

text \<open>\<open>liveRun.process\<close> from the comment on (lines 128-158).\<close>

definition liveRun_processRest :: "env \<Rightarrow> liveRun \<Rightarrow> world \<Rightarrow> Issue \<Rightarrow> RestoredIssue \<Rightarrow> string
    \<Rightarrow> fmtArg list \<Rightarrow> string option \<times> liveRun \<times> world" where
  "liveRun_processRest e run w i checkpoint commentTpl commentTplParams =
     (case comment e w i (sprintf commentTpl commentTplParams) of
        (Some err, w1) \<Rightarrow> (Some err, run, w1)
      | (None, w1) \<Rightarrow>
     (case saveState' e w1 (chkptf run) (checkpoint\<lparr>Done := commentDone'\<rparr>) of
        (Some err, w2) \<Rightarrow> (Some (sprintf ''process: %s'' [S err]), run, w2)
      | (None, w2) \<Rightarrow>
     (case closeIssue e w2 i of
        (Some err, w3) \<Rightarrow> (Some err, run, w3)
      | (None, w3) \<Rightarrow>
     (case saveState' e w3 (chkptf run) (checkpoint\<lparr>Done := closeDone'\<rparr>) of
        (Some err, w4) \<Rightarrow> (Some (sprintf ''process: %s'' [S err]), run, w4)
      | (None, w4) \<Rightarrow>
     (case lock e w4 i of
        (Some err, w5) \<Rightarrow> (Some err, run, w5)
      | (None, w5) \<Rightarrow>
     (case saveState' e w5 (chkptf run) (checkpoint\<lparr>Done := lockDone'\<rparr>) of
        (Some err, w6) \<Rightarrow> (Some (sprintf ''process: %s'' [S err]), run, w6)
      | (None, w6) \<Rightarrow>
          (None, run\<lparr>stats := (stats run)\<lparr>Processed := Processed (stats run) + 1\<rparr>\<rparr>, w6)))))))"

text \<open>\<open>liveRun.process\<close> (lines 84-159): the error, the callee's copy of \<open>run\<close> and the
  world. The checkpoint record gets the issue's URL in its field \<open>Repo\<close>, as in
  the source.\<close>

definition liveRun_process :: "env \<Rightarrow> liveRun \<Rightarrow> world \<Rightarrow> Issue \<Rightarrow> string option \<times> liveRun \<times> world" where
  "liveRun_process e run w i =
     (if IsPullRequest i then
        (None, run\<lparr>stats := (stats run)\<lparr>PullRequest := PullRequest (stats run) + 1\<rparr>\<rparr>, w)
      else
        (let checkpoint = \<lparr>URL = [], Owner = RepoOwnerLogin i, Repo = HTMLURL i,
                           IssNum = Number i, Done = 0, Extra = []\<rparr>
         in
         if \<not> isStale e w i then
           (let run1 = run\<lparr>stats := (stats run)\<lparr>Active := Active (stats run) + 1\<rparr>\<rparr>;
                title = (if runID e = [] then Title i
                         else sprintf ''[test][%s] %s'' [S (runID e), S (Title i)])
            in
            case discoursePost e w i title (Body i) (discourseCategoryID e) of
              (Inl err, w1) \<Rightarrow> (Some err, run1, w1)
            | (Inr url, w1) \<Rightarrow>
           (case saveState' e w1 (chkptf run1) (checkpoint\<lparr>Done := discourseDone'\<rparr>) of
              (Some err, w2) \<Rightarrow> (Some (sprintf ''process: %s'' [S err]), run1, w2)
            | (None, w2) \<Rightarrow>
                liveRun_processRest e run1 w2 i (checkpoint\<lparr>Done := discourseDone'\<rparr>)
                  activeTpl [S (UserLogin i), S url]))
         else
           (let run1 = run\<lparr>stats := (stats run)\<lparr>Stale := Stale (stats run) + 1\<rparr>\<rparr>
            in liveRun_processRest e run1 w i checkpoint staleTpl [S (UserLogin i)])))"

text \<open>The loop of \<open>liveRun.run\<close> (lines 187-195).\<close>

fun liveRun_loop :: "env \<Rightarrow> liveRun \<Rightarrow> world \<Rightarrow> Issue list \<Rightarrow> (RunStats \<times> string option) \<times> world" where
  "liveRun_loop e run w [] = ((stats run, None), w)"
| "liveRun_loop e run w (i # rest) =
     (case liveRun_process e run w i of
        (Some err, copy, w1) \<Rightarrow>
          ((stats run, Some (sprintf ''process issue %s: %s'' [S (HTMLURL i), S err])), w1)
      | (None, copy, w1) \<Rightarrow> liveRun_loop e run (sleep w1 throttleDelay) rest)"

datatype 'a outcome = Returned 'a | Exited int | Panicked panic

text \<open>\<open>liveRun.run\<close> (lines 166-196). \<open>run.finish\<close> does nothing; a failed open ends the
  program with \<open>os.Exit(1)\<close>; the deferred function closes the file.\<close>

definition liveRun_run :: "env \<Rightarrow> liveRun \<Rightarrow> world \<Rightarrow> Issue list \<Rightarrow> Issue option
    \<Rightarrow> (RunStats \<times> string option) outcome \<times> world" where
  "liveRun_run e run w issues unfinished =
     (case openFile e w (chkptLog e) [O_RDWR, O_CREATE] of
        (Inl err, w1) \<Rightarrow> (Exited 1, w1)
      | (Inr f, w1) \<Rightarrow>
          (case liveRun_loop e (run\<lparr>chkptf := Some f\<rparr>) w1 issues of
             (r, w2) \<Rightarrow> (Returned r, emit w2 FileClose)))"

datatype runMode = Dry dryRun | Live liveRun

definition zeroStats :: RunStats where
  "zeroStats = \<lparr>Processed = 0, Stale = 0, Active = 0, PullRequest = 0\<rparr>"

text \<open>\<open>getRunMode\<close> (lines 198-209): the zero value of each struct.\<close>

definition getRunMode :: "string \<Rightarrow> string + runMode" where
  "getRunMode mode =
     (if mode = ''dry'' then Inr (Dry \<lparr>stats = zeroStats\<rparr>)
      else if mode = ''live'' then Inr (Live \<lparr>stats = zeroStats, chkptf = None\<rparr>)
      else Inl (sprintf ''unkown run mode %s'' []))"

section \<open>main.go: main\<close>

definition stateFile :: string where "stateFile = ''data.txt''"
definition defaultMode :: string where "defaultMode = ''test''"

text \<open>The \<open>switch i.Done\<close> with its \<open>fallthrough\<close>s (main.go, lines 407-428). The
  calls \<open>close(iss)\<close> and \<open>lock(iss)\<close> stand in comments in the source: only the
  checkpoints are written. The results of \<open>comment\<close> and \<open>saveState\<close> are dropped.\<close>

definition resumeIssue :: "env \<Rightarrow> File option \<Rightarrow> world \<Rightarrow> RestoredIssue \<Rightarrow> Issue \<Rightarrow> world" where
  "resumeIssue e f w i iss =
     (let w1 = (if Done i = discourseDone then
                  (let dscURL = Extra i;
                       wc = (if isStale e w iss
                             then snd (comment e w iss (sprintf staleTpl [S (UserLogin iss)]))
                             else snd (comment e w iss (sprintf activeTpl [S (UserLogin iss), S dscURL])))
                   in snd (saveState e wc f iss commentDone []))
                else w);
          w2 = (if Done i = discourseDone \<or> Done i = commentDone
                then snd (saveState e w1 f iss closeDone []) else w1);
          w3 = (if Done i = discourseDone \<or> Done i = commentDone \<or> Done i = closeDone
                then snd (saveState e w2 f iss lockDone []) else w2)
      in w3)"

text \<open>The loop over \<open>issueStates\<close> (main.go, lines 380-431), in the order \<open>range\<close>
  gives. A failed fetch, or an answer outside 2xx, is printed and the issue
  passed over without counting.\<close>

fun resumeLoop :: "env \<Rightarrow> File option \<Rightarrow> int \<Rightarrow> world \<Rightarrow> RestoredIssue list \<Rightarrow> world" where
  "resumeLoop e f k w [] = w"
| "resumeLoop e f k w (i # rest) =
     (if k = maxCount then w
      else
        (case getIssue e w (Owner i) (Repo i) (IssNum i) of
           (Inl err, w1) \<Rightarrow>
             resumeLoop e f k (printIssueLog w1 (sprintf ''error getting issue: %s'' [S err])) rest
         | (Inr (iss, statusCode), w1) \<Rightarrow>
             (if statusCode < 200 \<or> statusCode \<ge> 300
              then resumeLoop e f k (printIssueLog w1 ''api error'') rest
              else resumeLoop e f (k + 1) (resumeIssue e f w1 i iss) rest)))"

text \<open>The bytes \<open>ioutil.ReadFile(stateFile)\<close> returns.\<close>

definition logOf :: "world \<Rightarrow> string" where
  "logOf w = (case disk w of None \<Rightarrow> [] | Some c \<Rightarrow> c)"

text \<open>The branch \<open>case "continue"\<close> (main.go, lines 321-431): \<open>Returned ()\<close> when it
  runs to its end. It assigns nothing to \<open>stats\<close>.\<close>

definition mainContinue :: "env \<Rightarrow> File option \<Rightarrow> world \<Rightarrow> unit outcome \<times> world" where
  "mainContinue e f w =
     (case readErr e (trace w) of
        Some err \<Rightarrow> (Exited 1, w)
      | None \<Rightarrow>
          (let content = logOf w in
           case readLog content of
             Inl p \<Rightarrow> (Panicked p, w)
           | Inr (issueStates, reps) \<Rightarrow>
               (let w1 = w\<lparr>trace := trace w @ map Print reps\<rparr>
                in (Returned (), resumeLoop e f 0 w1 (rangeOrder e (map snd issueStates))))))"

text \<open>The branch \<open>case "test", "migrate"\<close> (main.go, lines 304-320): the last
  repository's stats, or \<open>os.Exit(1)\<close>.\<close>

fun mainRepos :: "env \<Rightarrow> File option \<Rightarrow> string \<Rightarrow> RunStats option \<Rightarrow> world
    \<Rightarrow> (string \<times> string) list \<Rightarrow> RunStats option outcome \<times> world" where
  "mainRepos e f mode st w [] = (Returned st, w)"
| "mainRepos e f mode st w (r # rs) =
     (let issues = listByRepoRes e (trace w) (fst r) (snd r);
          w1 = emit w (ListByRepo (fst r) (snd r))
      in case process e w1 issues f mode of
           (Inl err, w2) \<Rightarrow> (Exited 1, w2)
         | (Inr s, w2) \<Rightarrow> mainRepos e f mode (Some s) w2 rs)"

text \<open>The first \<open>switch mode\<close> (main.go, lines 201-276): the repositories, or an exit
  code. Mode \<open>continue\<close> has no case there.\<close>

definition baseReposFor :: "env \<Rightarrow> string \<Rightarrow> int + (string \<times> string) list" where
  "baseReposFor e mode =
     (if mode = ''test'' then (case listReposRes e of Inl err \<Rightarrow> Inl 1 | Inr repos \<Rightarrow> Inr repos)
      else if mode = ''migrate'' then specReposRes e
      else Inr [])"

text \<open>The last two statements of \<open>main\<close> (lines 439-440) read the fields of \<open>stats\<close>,
  a pointer: nil panics.\<close>

definition printStats :: "RunStats option \<Rightarrow> RunStats outcome" where
  "printStats st = (case st of None \<Rightarrow> Panicked NilDereference | Some s \<Rightarrow> Returned s)"

text \<open>\<open>main\<close> with the command line \<open>args\<close>. The result is how the program ends:
  \<open>Returned s\<close> when it printed the stats \<open>s\<close> and returned.\<close>

definition main :: "env \<Rightarrow> world \<Rightarrow> string list \<Rightarrow> RunStats outcome \<times> world" where
  "main e w args =
     (let mode = (if length args > 2 then args ! 1 else defaultMode) in
      case baseReposFor e mode of
        Inl code \<Rightarrow> (Exited code, w)
      | Inr baseRepos \<Rightarrow>
     (case openFile e w stateFile [O_APPEND, O_WRONLY, O_CREATE] of
        (Inl err, w1) \<Rightarrow> (Exited 1, w1)
      | (Inr f, w1) \<Rightarrow>
     (case openErr e (trace w1) of
        Some err \<Rightarrow> (Exited 1, emit w1 (FileOpen ''err.txt'' [O_APPEND, O_WRONLY, O_CREATE]))
      | None \<Rightarrow>
     (let w2 = emit w1 (FileOpen ''err.txt'' [O_APPEND, O_WRONLY, O_CREATE]) in
      if mode = ''test'' \<or> mode = ''migrate'' then
        (case mainRepos e (Some f) mode None w2 baseRepos of
           (Returned st, w3) \<Rightarrow> (printStats st, w3)
         | (Exited code, w3) \<Rightarrow> (Exited code, w3)
         | (Panicked p, w3) \<Rightarrow> (Panicked p, w3))
      else if mode = ''continue'' then
        (case mainContinue e (Some f) w2 of
           (Returned u, w3) \<Rightarrow> (printStats None, w3)
         | (Exited code, w3) \<Rightarrow> (Exited code, w3)
         | (Panicked p, w3) \<Rightarrow> (Panicked p, w3))
      else (printStats None, w2)))))"

section \<open>Notions the properties are stated with\<close>

text \<open>The steps recorded for one URL in a list of records.\<close>

definition stepsOf :: "RestoredIssue list \<Rightarrow> string \<Rightarrow> int set" where
  "stepsOf rs u = set (map Done (filter (\<lambda>r. URL r = u) rs))"

text \<open>The records of the lines the resume pass parses, in the order of the lines.\<close>

fun parsedRecords :: "string list \<Rightarrow> RestoredIssue list" where
  "parsedRecords [] = []"
| "parsedRecords (l # ls) =
     (if l = [] then parsedRecords ls
      else (case parseLine l of Inl p \<Rightarrow> [] | Inr (iss, rs) \<Rightarrow> iss # parsedRecords ls))"

text \<open>A URL of the shape \<open>https://github.com/owner/repo/issues/N\<close>, as far as the
  parser needs it: at least seven pieces between slashes, and neither a space
  nor a line break.\<close>

definition wellFormedIssueURL :: "string \<Rightarrow> bool" where
  "wellFormedIssueURL u =
     (CHR '' '' \<notin> set u \<and> CHR ''\<newline>'' \<notin> set u \<and> 7 \<le> length (splitOn CHR ''/'' u))"

definition noSeparator :: "string \<Rightarrow> bool" where
  "noSeparator x = (CHR '' '' \<notin> set x \<and> CHR ''\<newline>'' \<notin> set x)"

text \<open>The triples \<open>(url, step, extra)\<close> the resume pass restores from a log, when it
  does not panic.\<close>

definition parsedBack :: "string \<Rightarrow> (string \<times> int \<times> string) list option" where
  "parsedBack content =
     (case readLog content of
        Inl p \<Rightarrow> None
      | Inr (issueStates, reps) \<Rightarrow> Some (map (\<lambda>(k, r). (URL r, Done r, Extra r)) issueStates))"

subsection \<open>Concrete inputs\<close>

definition url7 :: string where
  "url7 = ''https://github.com/o/r/issues/7''"

definition topic42 :: string where
  "topic42 = ''https://discuss.example/t/42''"

definition rec7 :: "int \<Rightarrow> RestoredIssue" where
  "rec7 d = \<lparr>URL = url7, Owner = ''o'', Repo = ''r'', IssNum = 7, Done = d, Extra = []\<rparr>"

definition issue7 :: Issue where
  "issue7 = \<lparr>HTMLURL = url7, Number = 7, UserLogin = ''alice'', UpdatedAt = 2000,
              Title = ''Build fails'', Body = ''It fails.'', PullRequestLinks = False,
              RepoOwnerLogin = ''o'', State = ''open''\<rparr>"

definition issue8 :: Issue where
  "issue8 = \<lparr>HTMLURL = ''https://github.com/o/r/issues/8'', Number = 8, UserLogin = ''bob'',
              UpdatedAt = 10, Title = ''Old'', Body = ''Long ago.'', PullRequestLinks = False,
              RepoOwnerLogin = ''o'', State = ''open''\<rparr>"

definition issue9 :: Issue where
  "issue9 = \<lparr>HTMLURL = ''https://github.com/o/r/pull/9'', Number = 9, UserLogin = ''carol'',
              UpdatedAt = 2000, Title = ''Patch'', Body = ''A patch.'', PullRequestLinks = True,
              RepoOwnerLogin = ''o'', State = ''open''\<rparr>"

text \<open>A world in which every collaborator answers without error: the clock reads
  1000 for three months ago, so \<open>issue7\<close> is active and \<open>issue8\<close> stale; the issue
  source answers every request with \<open>issue7\<close>, open, status 200.\<close>

definition envOK :: env where
  "envOK = \<lparr>now3 = (\<lambda>t. 1000),
             discourseRes = (\<lambda>t i mode. Inr topic42),
             discoursePostRes = (\<lambda>t i title body cat. Inr topic42),
             commentRes = (\<lambda>t i body. None),
             closeRes = (\<lambda>t i. None),
             lockRes = (\<lambda>t i. None),
             getIssueRes = (\<lambda>t owner repo num. Inr (issue7, 200)),
             listByRepoRes = (\<lambda>t owner repo. []),
             openErr = (\<lambda>t. None),
             readErr = (\<lambda>t. None),
             writeErr = (\<lambda>t s. None),
             syncErr = (\<lambda>t. None),
             rangeOrder = (\<lambda>rs. rs),
             listReposRes = Inr [],
             specReposRes = Inr [],
             runID = [],
             discourseCategoryID = 11,
             chkptLog = ''checkpoints.log'',
             chkptLine = (\<lambda>c. checkpointLine (Repo c) (Done c) (Extra c))\<rparr>"


definition world0 :: world where
  "world0 = \<lparr>trace = [], disk = None, pos = 0\<rparr>"

definition worldWithLog :: "string \<Rightarrow> world" where
  "worldWithLog c = \<lparr>trace = [], disk = Some c, pos = 0\<rparr>"

definition mainFile :: File where
  "mainFile = \<lparr>flags = [O_APPEND, O_WRONLY, O_CREATE]\<rparr>"

text \<open>The calls that change something outside the program.\<close>

fun isSideEffect :: "event \<Rightarrow> bool" where
  "isSideEffect (DiscourseCall i m) = True"
| "isSideEffect (DiscoursePost i t b c) = True"
| "isSideEffect (Comment i b) = True"
| "isSideEffect (Close i) = True"
| "isSideEffect (Lock i) = True"
| "isSideEffect e = False"

fun isSleep :: "event \<Rightarrow> bool" where
  "isSleep (Sleep d) = True"
| "isSleep e = False"

fun commentBodies :: "event list \<Rightarrow> string list" where
  "commentBodies [] = []"
| "commentBodies (Comment i b # es) = b # commentBodies es"
| "commentBodies (e # es) = commentBodies es"

definition continueArgs :: "string list" where
  "continueArgs = [''github-to-discourse'', ''continue'', ''now'']"

text \<open>The pauses of a run so far.\<close>

definition sleeps :: "world \<Rightarrow> event list" where
  "sleeps w = filter isSleep (trace w)"

text \<open>The error, if any, with which the outside world answers the operation \<open>ev\<close>
  issued after the events \<open>t\<close>.\<close>

fun answer :: "env \<Rightarrow> event list \<Rightarrow> event \<Rightarrow> string option" where
  "answer e t (DiscourseCall i m) = (case discourseRes e t i m of Inl err \<Rightarrow> Some err | Inr u \<Rightarrow> None)"
| "answer e t (DiscoursePost i ti b c) =
     (case discoursePostRes e t i ti b c of Inl err \<Rightarrow> Some err | Inr u \<Rightarrow> None)"
| "answer e t (Comment i b) = commentRes e t i b"
| "answer e t (Close i) = closeRes e t i"
| "answer e t (Lock i) = lockRes e t i"
| "answer e t (FileWrite s) = writeErr e t s"
| "answer e t FileSync = syncErr e t"
| "answer e t ev = None"




text \<open>The last thing recorded is an operation that the outside world answered with
  an error.\<close>

definition lastOperationFailed :: "env \<Rightarrow> world \<Rightarrow> bool" where
  "lastOperationFailed e w =
     (case rev (trace w) of [] \<Rightarrow> False | ev # t \<Rightarrow> answer e (rev t) ev \<noteq> None)"


text \<open>The bodies of the comments posted so far.\<close>

definition bodies :: "world \<Rightarrow> string list" where
  "bodies w = commentBodies (trace w)"

section \<open>Properties of the checkpoint log\<close>

subsection \<open>Splitting and decimal numbers\<close>

lemma splitOn_nosep: "c \<notin> set a \<Longrightarrow> splitOn c a = [a]"
  by (induction a) auto

lemma splitOn_append: "c \<notin> set a \<Longrightarrow> splitOn c (a @ c # rest) = a # splitOn c rest"
  by (induction a) auto

lemma checkpointLine_text:
  "checkpointLine u n x = u @ CHR '' '' # formatInt n @ CHR '' '' # x @ [CHR ''\<newline>'']"
  by (simp add: checkpointLine_def fmtExtra_def)

lemma digit_roundtrip: "d < 10 \<Longrightarrow> isDigit (digitChar d) \<and> digitVal (digitChar d) = int d"
proof -
  assume "d < 10"
  then consider "d = 0" | "d = 1" | "d = 2" | "d = 3" | "d = 4"
    | "d = 5" | "d = 6" | "d = 7" | "d = 8" | "d = 9"
    by atomize_elim arith
  then show ?thesis
    by cases (simp_all add: isDigit_def digitVal_def digitChar_def)
qed

lemma parseUint_append:
  "parseUint n (a @ b) = (case parseUint n a of Inl e \<Rightarrow> Inl e | Inr m \<Rightarrow> parseUint m b)"
  by (induction a arbitrary: n) auto

lemma parseUint_natDigits:
  "int m \<le> maxUint64 \<Longrightarrow> parseUint 0 (natDigits m) = Inr (int m)"
proof (induction m rule: natDigits.induct)
  case (1 n)
  show ?case
  proof (cases "n < 10")
    case True
    then show ?thesis using digit_roundtrip [of n] 1(2)
      by (subst natDigits.simps) (simp add: maxUint64_def)
  next
    case False
    have d: "n mod 10 < 10" by simp
    have "int (n div 10) \<le> maxUint64" using 1(2) by linarith
    with 1(1) False have ih: "parseUint 0 (natDigits (n div 10)) = Inr (int (n div 10))" by simp
    have lt: "int (n div 10) < maxUint64 div 10 + 1" using 1(2) by (simp add: maxUint64_def)
    have eq: "int (n div 10) * 10 + int (n mod 10) = int n" by presburger
    show ?thesis using False digit_roundtrip [OF d] ih lt eq 1(2)
      by (subst natDigits.simps) (simp add: parseUint_append)
  qed
qed

lemma natDigits_nonempty: "natDigits n \<noteq> []"
  by (subst natDigits.simps) simp

lemma natDigits_chars: "c \<in> set (natDigits n) \<Longrightarrow> isDigit c"
proof (induction n rule: natDigits.induct)
  case (1 n)
  show ?case
  proof (cases "n < 10")
    case True
    then show ?thesis using digit_roundtrip [of n] 1(2) by (subst (asm) natDigits.simps) simp
  next
    case False
    have d: "n mod 10 < 10" by simp
    from False 1 digit_roundtrip [OF d] show ?thesis
      by (subst (asm) (2) natDigits.simps) auto
  qed
qed

lemma isDigit_plain:
  "isDigit c \<Longrightarrow> c \<noteq> CHR ''-'' \<and> c \<noteq> CHR ''+'' \<and> c \<noteq> CHR '' '' \<and> c \<noteq> CHR ''\<newline>''"
  by (auto simp: isDigit_def)

text \<open>\<open>Atoi\<close> reads back what \<open>%d\<close> prints, for every value of a 64-bit int.\<close>

lemma atoi_formatInt:
  assumes "- (2 ^ 63) \<le> i" "i < 2 ^ 63"
  shows "atoi (formatInt i) = (i, None)"
proof (cases "i < 0")
  case True
  have "int (nat (- i)) \<le> maxUint64" using assms True by (simp add: maxUint64_def)
  from parseUint_natDigits [OF this] True assms natDigits_nonempty [of "nat (- i)"]
  show ?thesis
    by (simp add: atoi_def formatInt_def)
next
  case False
  have "int (nat i) \<le> maxUint64" using assms False by (simp add: maxUint64_def)
  moreover have "hd (natDigits (nat i)) \<in> set (natDigits (nat i))"
    using natDigits_nonempty by simp
  ultimately show ?thesis
    using parseUint_natDigits [of "nat i"] False assms natDigits_nonempty [of "nat i"]
      isDigit_plain [OF natDigits_chars [of "hd (natDigits (nat i))" "nat i"]]
    by (simp add: atoi_def formatInt_def)
qed

lemma formatInt_noSeparator: "noSeparator (formatInt i)"
  using natDigits_chars isDigit_plain
  by (auto simp: noSeparator_def formatInt_def)

lemma checkpointLine_fields:
  assumes "wellFormedIssueURL u" "noSeparator x"
  shows "splitOn CHR ''\<newline>'' (checkpointLine u step x)
           = [u @ CHR '' '' # formatInt step @ CHR '' '' # x, []]"
    and "splitOn CHR '' '' (u @ CHR '' '' # formatInt step @ CHR '' '' # x) = [u, formatInt step, x]"
proof -
  have "CHR ''\<newline>'' \<notin> set (u @ CHR '' '' # formatInt step @ CHR '' '' # x)"
    using assms formatInt_noSeparator [of step]
    by (simp add: wellFormedIssueURL_def noSeparator_def)
  from splitOn_append [OF this, of "[]"]
  show "splitOn CHR ''\<newline>'' (checkpointLine u step x)
          = [u @ CHR '' '' # formatInt step @ CHR '' '' # x, []]"
    by (simp add: checkpointLine_text)
next
  have u: "CHR '' '' \<notin> set u" using assms by (simp add: wellFormedIssueURL_def)
  have d: "CHR '' '' \<notin> set (formatInt step)"
    using formatInt_noSeparator [of step] by (simp add: noSeparator_def)
  have x: "CHR '' '' \<notin> set x" using assms by (simp add: noSeparator_def)
  show "splitOn CHR '' '' (u @ CHR '' '' # formatInt step @ CHR '' '' # x) = [u, formatInt step, x]"
    using splitOn_append [OF u, of "formatInt step @ CHR '' '' # x"]
      splitOn_append [OF d, of x] splitOn_nosep [OF x]
    by simp
qed

lemma parseLine_checkpoint:
  assumes wf: "wellFormedIssueURL u" and ns: "noSeparator x"
    and lo: "- (2 ^ 63) \<le> step" and hi: "step < 2 ^ 63"
    and ex: "step = discourseDone \<or> x = []"
  shows "\<exists>reps. parseLine (u @ CHR '' '' # formatInt step @ CHR '' '' # x) =
     Inr (\<lparr>URL = u, Owner = splitOn CHR ''/'' u ! 3, Repo = splitOn CHR ''/'' u ! 4,
            IssNum = fst (atoi (splitOn CHR ''/'' u ! 6)), Done = step, Extra = x\<rparr>, reps)"
proof -
  have len: "7 \<le> length (splitOn CHR ''/'' u)" using wf by (simp add: wellFormedIssueURL_def)
  obtain num numErr where a: "atoi (splitOn CHR ''/'' u ! 6) = (num, numErr)" by force
  show ?thesis
    using ex len
    by (auto simp add: parseLine_def checkpointLine_fields(2) [OF wf ns] orPanic_def index_def
        atoi_formatInt [OF lo hi] a Let_def)
qed

lemmas parse_eval = readLog_def parseLine_def index_def orPanic_def atoi_def isDigit_def
  digitVal_def maxUint64_def discourseDone_def atoiReport_def populate_def

subsection \<open>The fold over the records\<close>

lemma restoredStep_populate:
  "restoredStep (populate al r) u =
     (if u = URL r
      then (case restoredStep al u of None \<Rightarrow> Some (Done r) | Some d \<Rightarrow> Some (max d (Done r)))
      else restoredStep al u)"
  by (auto simp: restoredStep_def populate_def update_conv' split: option.splits)

lemma stepsOf_Cons:
  "stepsOf (r # rs) u = (if URL r = u then insert (Done r) (stepsOf rs u) else stepsOf rs u)"
  by (auto simp: stepsOf_def)

lemma stepsOf_finite: "finite (stepsOf rs u)"
  by (simp add: stepsOf_def)

lemma restoredStep_foldl:
  "restoredStep (foldl populate al rs) u =
     (if stepsOf rs u = {} then restoredStep al u
      else Some (case restoredStep al u of None \<Rightarrow> Max (stepsOf rs u)
                 | Some d \<Rightarrow> max d (Max (stepsOf rs u))))"
proof (induction rs arbitrary: al)
  case Nil
  then show ?case by (simp add: stepsOf_def)
next
  case (Cons r rs)
  show ?case
  proof (cases "URL r = u")
    case False
    then show ?thesis
      by (simp add: Cons.IH restoredStep_populate stepsOf_Cons cong: option.case_cong)
  next
    case True
    show ?thesis
    proof (cases "stepsOf rs u = {}")
      case True
      with \<open>URL r = u\<close> show ?thesis
        by (simp add: Cons.IH restoredStep_populate stepsOf_Cons split: option.splits)
    next
      case False
      with \<open>URL r = u\<close> show ?thesis
        using stepsOf_finite [of rs u]
        by (auto simp add: Cons.IH restoredStep_populate stepsOf_Cons
            max.assoc max.commute max.left_commute split: option.splits)
    qed
  qed
qed

text \<open>The loop over the lines is this fold, over the records of the lines.\<close>

lemma loadStates_is_fold:
  "loadStates al reps ls = Inr (al', reps') \<Longrightarrow> al' = foldl populate al (parsedRecords ls)"
proof (induction ls arbitrary: al reps)
  case Nil
  then show ?case by simp
next
  case (Cons l ls)
  show ?case
  proof (cases "l = []")
    case True
    with Cons show ?thesis by simp
  next
    case False
    with Cons.prems obtain iss rs0 where p: "parseLine l = Inr (iss, rs0)"
      and rest: "loadStates (populate al iss) (reps @ rs0) ls = Inr (al', reps')"
      by (auto split: sum.splits)
    from Cons.IH [OF rest] p False show ?thesis
      by simp
  qed
qed

lemma readLog_is_fold:
  "readLog content = Inr (al, reps) \<Longrightarrow>
     al = foldl populate [] (parsedRecords (splitOn CHR ''\<newline>'' content))"
  unfolding readLog_def by (rule loadStates_is_fold)

text \<open>
  C5. For the records of one issue URL, in any order, the fold of the resume pass
  (main.go, lines 369-378; \<open>readLog_is_fold\<close>) stores the maximum of their steps: for every list \<open>rs\<close>
  of records in which \<open>u\<close> occurs, the step restored for \<open>u\<close> is the greatest step
  recorded for \<open>u\<close>; every reordering of \<open>rs\<close> restores the same step; and one more
  record for \<open>u\<close>, whatever its step, never lowers the step already stored.
\<close>

theorem fold_keeps_maximum_step:
  assumes "r \<in> set rs" and "URL r = u"
  shows "restoredStep (foldl populate [] rs) u = Some (Max (stepsOf rs u)) \<and>
         (\<forall>rs'. mset rs' = mset rs \<longrightarrow>
            restoredStep (foldl populate [] rs') u = Some (Max (stepsOf rs u))) \<and>
         (\<forall>al d. restoredStep al u = Some d \<longrightarrow>
            (\<exists>d'. restoredStep (populate al r) u = Some d' \<and> d \<le> d'))"
proof -
  have ne: "stepsOf rs u \<noteq> {}"
    using assms by (auto simp: stepsOf_def)
  have first: "restoredStep (foldl populate [] rs) u = Some (Max (stepsOf rs u))"
    using ne by (simp add: restoredStep_foldl) (simp add: restoredStep_def)
  have perm: "restoredStep (foldl populate [] rs') u = Some (Max (stepsOf rs u))"
    if "mset rs' = mset rs" for rs'
  proof -
    from that have "set rs' = set rs" by (rule mset_eq_setD)
    then have same: "stepsOf rs' u = stepsOf rs u" by (simp add: stepsOf_def)
    with ne show ?thesis
      by (simp add: restoredStep_foldl) (simp add: restoredStep_def)
  qed
  have mono: "\<exists>d'. restoredStep (populate al r) u = Some d' \<and> d \<le> d'"
    if "restoredStep al u = Some d" for al d
    using that assms(2) by (simp add: restoredStep_populate)
  from first perm mono show ?thesis by blast
qed

theorem fold_keeps_maximum_step_witness:
  "restoredStep (foldl populate [] [rec7 3, rec7 1, rec7 2]) url7 = Some 3 \<and>
   restoredStep (foldl populate [] [rec7 1, rec7 2, rec7 3]) url7 = Some 3"
proof -
  have m: "mset [rec7 1, rec7 2, rec7 3] = mset [rec7 3, rec7 1, rec7 2]"
    by (simp add: add.commute)
  have s: "Max (stepsOf [rec7 3, rec7 1, rec7 2] url7) = 3"
    by (simp add: stepsOf_def rec7_def)
  have "rec7 3 \<in> set [rec7 3, rec7 1, rec7 2]" and "URL (rec7 3) = url7"
    by (simp_all add: rec7_def)
  from fold_keeps_maximum_step [OF this]
  have a: "restoredStep (foldl populate [] [rec7 3, rec7 1, rec7 2]) url7
             = Some (Max (stepsOf [rec7 3, rec7 1, rec7 2] url7))"
    and b: "\<forall>rs'. mset rs' = mset [rec7 3, rec7 1, rec7 2] \<longrightarrow>
             restoredStep (foldl populate [] rs') url7
               = Some (Max (stepsOf [rec7 3, rec7 1, rec7 2] url7))"
    by blast+
  from b m have c: "restoredStep (foldl populate [] [rec7 1, rec7 2, rec7 3]) url7
             = Some (Max (stepsOf [rec7 3, rec7 1, rec7 2] url7))"
    by blast
  from a c show ?thesis
    unfolding s by (rule conjI)
qed

text \<open>
  C7. A checkpoint record whose URL is a well-formed issue URL, whose step is any
  value of an int and whose extra holds neither a space nor a line break, and is
  empty unless the step is \<open>discourseDone\<close>, is read back by the resume pass
  (main.go, lines 330-378) from the line \<open>saveState\<close> formats for it
  (main.go, line 71) as the same \<open>(url, step, extra)\<close>.
\<close>

theorem checkpoint_roundtrip:
  assumes wf: "wellFormedIssueURL u" and ns: "noSeparator x"
    and lo: "- (2 ^ 63) \<le> step" and hi: "step < 2 ^ 63"
    and ex: "step = discourseDone \<or> x = []"
  shows "parsedBack (checkpointLine u step x) = Some [(u, step, x)]"
proof -
  from parseLine_checkpoint [OF assms] obtain reps where
    p: "parseLine (u @ CHR '' '' # formatInt step @ CHR '' '' # x) =
     Inr (\<lparr>URL = u, Owner = splitOn CHR ''/'' u ! 3, Repo = splitOn CHR ''/'' u ! 4,
            IssNum = fst (atoi (splitOn CHR ''/'' u ! 6)), Done = step, Extra = x\<rparr>, reps)"
    by blast
  show ?thesis
    by (simp add: parsedBack_def readLog_def checkpointLine_fields(1) [OF wf ns] p populate_def)
qed

theorem checkpoint_roundtrip_witness:
  "wellFormedIssueURL url7 \<and> noSeparator topic42 \<and>
   parsedBack (checkpointLine url7 discourseDone topic42) = Some [(url7, discourseDone, topic42)] \<and>
   parsedBack (checkpointLine url7 lockDone []) = Some [(url7, lockDone, [])]"
proof -
  have wf: "wellFormedIssueURL url7"
    by (simp add: wellFormedIssueURL_def url7_def)
  have ns: "noSeparator topic42" "noSeparator []"
    by (simp_all add: noSeparator_def topic42_def)
  from wf ns checkpoint_roundtrip [of url7 topic42 discourseDone]
    checkpoint_roundtrip [of url7 "[]" lockDone]
  show ?thesis
    by (simp add: discourseDone_def lockDone_def)
qed

text \<open>An extra with a space in it is cut at the space when the line is read back.\<close>

theorem checkpoint_roundtrip_counterexample:
  "wellFormedIssueURL url7 \<and>
   parsedBack (checkpointLine url7 discourseDone ''a b'') = Some [(url7, discourseDone, ''a'')] \<and>
   parsedBack (checkpointLine url7 discourseDone ''a b'') \<noteq> Some [(url7, discourseDone, ''a b'')]"
  by (simp add: wellFormedIssueURL_def url7_def parsedBack_def checkpointLine_text formatInt_def
      natDigits.simps digitChar_def parse_eval)

text \<open>
  C6. Malformed lines are not skipped. A line whose issue number is no number is
  reported and still restores an issue, with number 0; a line whose step is no
  number is reported and still restores an issue, at step 0; a line with one
  field, and a line at step \<open>discourseDone\<close> with two fields, end the resume pass
  with an index out of range.
\<close>

theorem malformed_lines_are_not_skipped:
  "readLog ''https://github.com/o/r/issues/x 2 \<newline>'' =
     Inr ([(''https://github.com/o/r/issues/x'',
            \<lparr>URL = ''https://github.com/o/r/issues/x'', Owner = ''o'', Repo = ''r'',
               IssNum = 0, Done = 2, Extra = []\<rparr>)],
          [CouldNotReadStoredState ''x'' ErrSyntax]) \<and>
   readLog ''https://github.com/o/r/issues/7 zz \<newline>'' =
     Inr ([(''https://github.com/o/r/issues/7'',
            \<lparr>URL = ''https://github.com/o/r/issues/7'', Owner = ''o'', Repo = ''r'',
               IssNum = 7, Done = 0, Extra = []\<rparr>)],
          [CouldNotReadStoredState ''zz'' ErrSyntax]) \<and>
   readLog ''abc\<newline>'' = Inl IndexOutOfRange \<and>
   readLog ''https://github.com/o/r/issues/7 1\<newline>'' = Inl IndexOutOfRange"
  by (simp add: parse_eval)

section \<open>Properties of main\<close>

lemma openFile_main:
  "openFile e w name [O_APPEND, O_WRONLY, O_CREATE] = (r, w1) \<Longrightarrow>
     (case r of
        Inl err \<Rightarrow> openErr e (trace w) \<noteq> None
      | Inr f \<Rightarrow> openErr e (trace w) = None \<and> logOf w1 = logOf w
                 \<and> f = \<lparr>flags = [O_APPEND, O_WRONLY, O_CREATE]\<rparr>)"
  by (auto simp: openFile_def Let_def logOf_def emit_def split: option.splits)

text \<open>
  C10. Started with the mode \<open>continue\<close>, \<open>main\<close> never gets to report the stats: the
  branch \<open>case "continue"\<close> leaves the pointer \<open>stats\<close> nil, so whenever the two
  files open, the log is read and every line of it is parsed without a panic,
  the program ends with a nil dereference at the statements that print the
  stats; in no case does it return.
\<close>

theorem continue_mode_never_reports_stats:
  assumes "length args > 2" and "args ! 1 = ''continue''"
  shows "(\<forall>s. fst (main e w args) \<noteq> Returned s) \<and>
         ((\<forall>t. openErr e t = None) \<longrightarrow> (\<forall>t. readErr e t = None) \<longrightarrow>
          (\<forall>p. readLog (logOf w) \<noteq> Inl p) \<longrightarrow>
            fst (main e w args) = Panicked NilDereference)"
proof -
  have mode: "(if length args > 2 then args ! 1 else defaultMode) = ''continue''"
    using assms by simp
  have repos: "baseReposFor e ''continue'' = Inr []"
    by (simp add: baseReposFor_def)
  obtain r w1 where o: "openFile e w stateFile [O_APPEND, O_WRONLY, O_CREATE] = (r, w1)"
    by force
  note opened = openFile_main [OF o]
  have never: "fst (main e w args) \<noteq> Returned s" for s
    by (simp add: main_def mode repos o printStats_def Let_def
        split: sum.splits option.splits prod.splits outcome.splits)
  have panics: "fst (main e w args) = Panicked NilDereference"
    if a: "\<forall>t. openErr e t = None" and b: "\<forall>t. readErr e t = None"
      and c: "\<forall>p. readLog (logOf w) \<noteq> Inl p"
  proof -
    from opened a obtain f where r: "r = Inr f" and l: "logOf w1 = logOf w"
      by (cases r) auto
    have l2: "logOf (emit w1 ev) = logOf w1" for ev
      by (simp add: logOf_def emit_def)
    from c obtain al reps where rl: "readLog (logOf w) = Inr (al, reps)"
      by (cases "readLog (logOf w)") auto
    show ?thesis
      using a b
      by (simp add: main_def mode repos o r mainContinue_def l l2 rl printStats_def Let_def)
  qed
  from never panics show ?thesis by blast
qed

theorem continue_mode_never_reports_stats_witness:
  "fst (main envOK (worldWithLog ''https://github.com/o/r/issues/7 2 \<newline>'') continueArgs)
     = Panicked NilDereference"
proof -
  have a: "length continueArgs > 2" "continueArgs ! 1 = ''continue''"
    by (simp_all add: continueArgs_def)
  have o: "\<forall>t. openErr envOK t = None" "\<forall>t. readErr envOK t = None"
    by (simp_all add: envOK_def)
  have r: "\<forall>p. readLog (logOf (worldWithLog ''https://github.com/o/r/issues/7 2 \<newline>'')) \<noteq> Inl p"
    by (simp add: logOf_def worldWithLog_def parse_eval)
  from continue_mode_never_reports_stats [OF a, of envOK] o r
  show ?thesis by blast
qed

text \<open>Whatever the restored step and the fetched issue, the \<open>switch\<close> of the resume
  path only comments and writes checkpoints: it never closes and never locks.\<close>

lemma saveState_events:
  assumes "ev \<in> set (trace (snd (saveState e w f i s x)))"
  shows "ev \<in> set (trace w) \<or> (\<exists>l. ev = FileWrite l) \<or> ev = FileSync"
  using assms
  by (auto simp: saveState_def fileWriteString_def fileSync_def emit_def Let_def
      split: option.splits prod.splits)

lemma comment_events:
  assumes "ev \<in> set (trace (snd (comment e w i b)))"
  shows "ev \<in> set (trace w) \<or> ev = Comment i b"
  using assms by (auto simp: comment_def emit_def)

lemma resumeIssue_events:
  assumes "ev \<in> set (trace (resumeIssue e f w i iss))"
  shows "ev \<in> set (trace w) \<or> (\<exists>b. ev = Comment iss b) \<or> (\<exists>l. ev = FileWrite l) \<or> ev = FileSync"
  using assms
  by (auto simp: resumeIssue_def Let_def split: if_splits
      dest!: saveState_events comment_events)

text \<open>
  C3. Resuming an issue the log has at step \<open>commentDone\<close>, fetched open: the resume
  path makes no call that closes or locks the issue (nor any other call with a
  side effect), and still appends the checkpoints of steps 3 and 4 to the log.
\<close>

theorem resume_writes_checkpoints_without_closing:
  "filter isSideEffect
     (trace (snd (main envOK (worldWithLog ''https://github.com/o/r/issues/7 2 \<newline>'') continueArgs)))
     = [] \<and>
   disk (snd (main envOK (worldWithLog ''https://github.com/o/r/issues/7 2 \<newline>'') continueArgs))
     = Some ''https://github.com/o/r/issues/7 2 \<newline>https://github.com/o/r/issues/7 3 \<newline>https://github.com/o/r/issues/7 4 \<newline>''"
  by code_simp

section \<open>Properties of process and of the run modes\<close>

lemma commentBodies_append [simp]:
  "commentBodies (xs @ ys) = commentBodies xs @ commentBodies ys"
  by (induction xs rule: commentBodies.induct) simp_all

lemma bodies_emit [simp]:
  "bodies (emit w ev) = bodies w @ commentBodies [ev]"
  by (simp add: bodies_def emit_def)

lemma bodies_update [simp]:
  "bodies (w\<lparr>disk := d\<rparr>) = bodies w" "bodies (w\<lparr>pos := p\<rparr>) = bodies w"
  by (simp_all add: bodies_def)

lemma saveState'_bodies:
  "saveState' e w f c = (r, w') \<Longrightarrow> bodies w' = bodies w"
  by (auto simp: saveState'_def fileWriteString_def fileSync_def Let_def
      split: option.splits prod.splits)

lemma liveRun_processRest_bodies:
  "liveRun_processRest e run w i c tpl ps = (r, rc, w') \<Longrightarrow> bodies w' = bodies w @ [sprintf tpl ps]"
  by (auto simp: liveRun_processRest_def comment_def closeIssue_def lock_def
      split: option.splits prod.splits dest!: saveState'_bodies)

text \<open>\<open>liveRun.process\<close> does fill the templates with the author's handle: on a stale
  issue it posts the stale template filled with the handle; on an active issue
  it posts nothing (the Discourse call or the checkpoint write failed) or the
  active template filled with the handle and the URL the Discourse call
  returned.\<close>

lemma liveRun_process_bodies:
  assumes "\<not> IsPullRequest i" and "liveRun_process e run w i = (r, rc, w')"
  shows "if isStale e w i then bodies w' = bodies w @ [sprintf staleTpl [S (UserLogin i)]]
         else (\<forall>url. discoursePostRes e (trace w) i
                       (if runID e = [] then Title i
                        else sprintf ''[test][%s] %s'' [S (runID e), S (Title i)])
                       (Body i) (discourseCategoryID e) = Inr url
                  \<longrightarrow> bodies w' = bodies w
                       \<or> bodies w' = bodies w @ [sprintf activeTpl [S (UserLogin i), S url]])"
  using assms
  by (auto simp: liveRun_process_def discoursePost_def Let_def
      split: option.splits prod.splits sum.splits if_splits
      dest!: saveState'_bodies liveRun_processRest_bodies)

text \<open>
  C2. In \<open>process\<close> of main.go the comment is not the template filled with the
  author's handle. For the active \<open>issue7\<close> of author alice, with the topic URL
  the Discourse call returned, the body has the topic URL where the handle
  belongs and \<open>%!s(MISSING)\<close> where the URL belongs; for the stale \<open>issue8\<close> it has
  \<open>%!s(MISSING)\<close> for the handle. The last line is the active template filled
  with handle and URL.
\<close>

theorem process_comment_misses_the_author:
  "commentBodies (trace (snd (process envOK world0 [issue7] (Some mainFile) ''test''))) =
     [''Hi https://discuss.example/t/42! We are migrating our GitHub issues to Discourse (https://discuss.bitrise.io/c/issues/build-issues). From now on, you can track this issue at: %!s(MISSING)''] \<and>
   commentBodies (trace (snd (process envOK world0 [issue8] (Some mainFile) ''test''))) =
     [''Hi %!s(MISSING)! We are migrating our GitHub issues to Discourse (https://discuss.bitrise.io/c/issues/build-issues). Because this issue has been inactive for more than three months, we will be closing it. If you feel it is still relevant, please open a ticket on Discourse!''] \<and>
   sprintf activeTpl [S (UserLogin issue7), S topic42] =
     ''Hi alice! We are migrating our GitHub issues to Discourse (https://discuss.bitrise.io/c/issues/build-issues). From now on, you can track this issue at: https://discuss.example/t/42''"
  by code_simp

text \<open>Whatever the issues, \<open>dryRun.run\<close> returns the stats it started with.\<close>

lemma dryRun_run_result: "fst (dryRun_run e run w issues) = (stats run, None)"
  by (induction issues arbitrary: w) simp_all

text \<open>
  C4. A dry run over a pull request, an active and a stale issue returns stats that
  are all zero: \<open>dryRun.process\<close> counts on its own copy of \<open>run\<close> (the copy made
  for the pull request does hold the count 1), and \<open>dryRun.run\<close> returns the
  stats of a \<open>run\<close> that no call ever changed.
\<close>

theorem dry_run_returns_zero_stats:
  "fst (dryRun_run envOK \<lparr>stats = zeroStats\<rparr> world0 [issue9, issue7, issue8]) =
     (\<lparr>Processed = 0, Stale = 0, Active = 0, PullRequest = 0\<rparr>, None) \<and>
   stats (dryRun_process envOK \<lparr>stats = zeroStats\<rparr> world0 issue9) =
     \<lparr>Processed = 0, Stale = 0, Active = 0, PullRequest = 1\<rparr>"
  by code_simp

text \<open>The handle of main.go is opened with \<open>O_APPEND\<close>: through it, \<open>process\<close> only ever
  adds to the end of the log.\<close>

lemma logOf_emit [simp]: "logOf (emit w ev) = logOf w"
  by (simp add: logOf_def emit_def)

lemma saveState_appends:
  assumes "O_APPEND \<in> set (flags f)" and "saveState e w (Some f) i st x = (r, w')"
  shows "\<exists>suffix. logOf w' = logOf w @ suffix"
  using assms
  by (auto simp: saveState_def fileWriteString_def fileSync_def written_def Let_def logOf_def
      emit_def split: option.splits prod.splits)

lemma processRest_appends:
  assumes "O_APPEND \<in> set (flags f)" and "processRest e (Some f) st w i = (c, st', w')"
  shows "\<exists>suffix. logOf w' = logOf w @ suffix"
  using assms(2)
  by (auto simp: processRest_def closeIssue_def lock_def printIssueLog_def
      split: option.splits prod.splits dest!: saveState_appends [OF assms(1)])

lemma processBody_appends:
  assumes "O_APPEND \<in> set (flags f)" and "processBody e (Some f) mode st w i = (c, st', w')"
  shows "\<exists>suffix. logOf w' = logOf w @ suffix"
  using assms(2)
  by (auto simp: processBody_def discourse_def comment_def Let_def printIssueLog_def sleep_def
      split: option.splits prod.splits sum.splits if_splits
      dest!: saveState_appends [OF assms(1)] processRest_appends [OF assms(1)])

lemma process_appends:
  assumes "O_APPEND \<in> set (flags f)"
  shows "\<exists>suffix. logOf (snd (process e w issues (Some f) mode)) = logOf w @ suffix"
proof -
  have "\<exists>suffix. logOf (snd (processLoop e (Some f) mode st w issues)) = logOf w @ suffix" for st
  proof (induction issues arbitrary: st w)
    case Nil
    then show ?case by simp
  next
    case (Cons i rest)
    obtain c st1 w1 where b: "processBody e (Some f) mode st w i = (c, st1, w1)"
      by (cases "processBody e (Some f) mode st w i") auto
    from processBody_appends [OF assms b] obtain s1 where s1: "logOf w1 = logOf w @ s1"
      by blast
    from Cons.IH [of st1 w1] obtain s2 where
      s2: "logOf (snd (processLoop e (Some f) mode st1 w1 rest)) = logOf w1 @ s2"
      by blast
    show ?case
      using b s1 s2 by (cases c) auto
  qed
  then show ?thesis by (simp add: process_def)
qed

text \<open>
  C8. \<open>liveRun.run\<close> opens the log without \<open>O_APPEND\<close>: its writes start at position
  0, over what the file holds. A log with one line, then a live run over one
  stale issue: the line is gone, overwritten by the three checkpoints of the run.
\<close>

theorem live_run_overwrites_the_log:
  "disk (snd (liveRun_run envOK \<lparr>stats = zeroStats, chkptf = None\<rparr>
           (worldWithLog ''https://github.com/o/r/issues/1 4 \<newline>'') [issue8] None)) =
     Some ''https://github.com/o/r/issues/8 1 \<newline>https://github.com/o/r/issues/8 2 \<newline>https://github.com/o/r/issues/8 3 \<newline>''"
  by code_simp

section \<open>Failures and pauses\<close>

subsection \<open>What one operation leaves behind\<close>

lemma lastOperationFailed_emit [simp]:
  "lastOperationFailed e (emit w ev) = (answer e (trace w) ev \<noteq> None)"
  by (simp add: lastOperationFailed_def emit_def)

lemma sleeps_emit [simp]:
  "sleeps (emit w ev) = (if isSleep ev then sleeps w @ [ev] else sleeps w)"
  by (simp add: sleeps_def emit_def)

lemma sleeps_update [simp]:
  "sleeps (w\<lparr>disk := d\<rparr>) = sleeps w" "sleeps (w\<lparr>pos := p\<rparr>) = sleeps w"
  by (simp_all add: sleeps_def)



















lemma dryRun_run_trace:
  "trace (snd (dryRun_run e run w issues)) = trace w @ replicate (length issues) (Sleep throttleDelay)"
  by (induction issues arbitrary: w) (simp_all add: sleep_def emit_def replicate_append_same)

text \<open>The argument of the pauses is 1,001,000 nanoseconds.\<close>

lemma throttleDelay_value: "throttleDelay = 1001000"
  by (simp add: throttleDelay_def Millisecond_def)

subsection \<open>The claims\<close>







end
